theory Spec2Isabelle
  imports Complex_Main
begin

section \<open>Data model\<close>

text \<open>
  A calendar day (Python's \<^verbatim>\<open>datetime.date\<close>) is represented by its proleptic
  Gregorian ordinal, so that comparing two dates is comparing two integers.  A date
  object is always truthy in Python, hence \<^verbatim>\<open>not badge.start_date\<close> holds exactly
  when the field is \<^verbatim>\<open>None\<close>.  Python floats are idealised as real numbers.
\<close>

type_synonym date = int

text \<open>
  The dictionary built per requirement in
  \<^verbatim>\<open>POIStatusCalculator.requirements_data_by_poi_id\<close>; the \<^verbatim>\<open>Badge\<close> model
  carries the same three fields and its primary key.
\<close>

record badge_data =
  is_fully_achieved :: bool
  start_date :: "date option"
  end_date :: "date option"

record badge = badge_data +
  badge_id :: nat

section \<open>POI status calculator (point\_of\_interest\_service.py)\<close>

text \<open>The filter of the list comprehension that builds \<^verbatim>\<open>active_badges_data\<close>.\<close>

definition active_on :: "date \<Rightarrow> badge_data \<Rightarrow> bool" where
  "active_on today bd \<longleftrightarrow>
     \<not> is_fully_achieved bd \<and>
     (case start_date bd of None \<Rightarrow> True | Some s \<Rightarrow> s \<le> today) \<and>
     (case end_date bd of None \<Rightarrow> True | Some e \<Rightarrow> e \<ge> today)"

text \<open>The generator expression under \<^verbatim>\<open>any(...)\<close> in \<^verbatim>\<open>_determine_status\<close>.\<close>

definition status_is_claimed :: "date list \<Rightarrow> badge_data \<Rightarrow> bool" where
  "status_is_claimed visit_dates bd =
     list_ex (\<lambda>visit_date.
        (case start_date bd of None \<Rightarrow> True | Some s \<Rightarrow> visit_date \<ge> s) \<and>
        (case end_date bd of None \<Rightarrow> True | Some e \<Rightarrow> visit_date \<le> e)) visit_dates"

text \<open>The counting loop over \<^verbatim>\<open>active_badges_data\<close>.\<close>

fun claimed_badges_count :: "date list \<Rightarrow> badge_data list \<Rightarrow> nat \<Rightarrow> nat" where
  "claimed_badges_count visit_dates [] n = n"
| "claimed_badges_count visit_dates (bd # rest) n =
     claimed_badges_count visit_dates rest (if status_is_claimed visit_dates bd then n + 1 else n)"

definition determine_status :: "date \<Rightarrow> date list \<Rightarrow> badge_data list \<Rightarrow> string" where
  "determine_status today visit_dates badges_data =
     (if badges_data = [] then ''nieaktywny''
      else
        let active_badges_data = filter (active_on today) badges_data in
        if active_badges_data = [] then ''nieaktywny''
        else
          let n = claimed_badges_count visit_dates active_badges_data 0 in
          if n = length active_badges_data then ''zdobyty''
          else if visit_dates \<noteq> [] then ''do_ponowienia''
          else ''niezdobyty'')"

section \<open>GPX parsing and trip statistics (trip\_service.py)\<close>

text \<open>
  Python's \<^verbatim>\<open>round(x)\<close> rounds to the nearest integer, a tie going to the even
  neighbour; \<^verbatim>\<open>round(x, 2)\<close> does the same at the second decimal.
\<close>

definition py_round :: "real \<Rightarrow> int" where
  "py_round x =
     (let f = \<lfloor>x\<rfloor>; d = x - of_int f
      in if d < 1 / 2 then f else if d > 1 / 2 then f + 1 else if even f then f else f + 1)"

definition py_round2 :: "real \<Rightarrow> real" where
  "py_round2 x = of_int (py_round (x * 100)) / 100"

text \<open>
  What the \<^verbatim>\<open>gpxpy\<close> library hands back for an uploaded file: the track points, grouped
  by track and segment, and the two aggregates the code asks the library for
  (\<^verbatim>\<open>length_3d()\<close> and the first component of \<^verbatim>\<open>get_uphill_downhill()\<close>).  Reading,
  decoding or parsing the file may instead raise.
\<close>

record gpx_point =
  longitude :: real
  latitude :: real
  elevation :: "real option"

record gpx =
  tracks :: "gpx_point list list list"
  length_3d :: real
  uphill :: real

datatype gpx_exception = GPXXMLSyntaxException | OtherException

datatype gpx_file = Unparsable gpx_exception | Parsed gpx

type_synonym point = "real \<times> real \<times> real"






text \<open>
  A stored segment.  The file field is \<^verbatim>\<open>None\<close> when no file is attached.  The path is
  a three-dimensional line string (the model field has \<^verbatim>\<open>dim=3\<close>), so every
  coordinate tuple has an elevation; it is falsy when absent or without points.  Its
  planar length after the transformation to EPSG:3857 is computed by the geometry
  library and is \<^verbatim>\<open>None\<close> here when that transformation raises.
\<close>

record linestring =
  coords :: "point list"
  length_3857 :: "real option"

record trip_segment =
  sequence :: nat
  gpx_file :: "gpx_file option"
  gpx_path :: "linestring option"

record segment_stats =
  distance_km :: real
  elevation_gain_m :: int

text \<open>The fallback loop of \<^verbatim>\<open>get_segment_stats\<close> summing the positive steps.\<close>

fun elevation_gain :: "point list \<Rightarrow> real \<Rightarrow> real" where
  "elevation_gain (p # q # rest) acc =
     (let diff = snd (snd q) - snd (snd p)
      in elevation_gain (q # rest) (if diff > 0 then acc + diff else acc))"
| "elevation_gain _ acc = acc"

definition path_stats :: "linestring option \<Rightarrow> segment_stats" where
  "path_stats path =
     (case path of
        None \<Rightarrow> \<lparr>distance_km = 0, elevation_gain_m = 0\<rparr>
      | Some ls \<Rightarrow>
          if coords ls = [] then \<lparr>distance_km = 0, elevation_gain_m = 0\<rparr>
          else
            \<lparr>distance_km =
               (case length_3857 ls of Some l \<Rightarrow> py_round2 (l / 1000) | None \<Rightarrow> 0),
             elevation_gain_m = py_round (elevation_gain (coords ls) 0)\<rparr>)"

definition get_segment_stats :: "trip_segment \<Rightarrow> segment_stats" where
  "get_segment_stats segment =
     (case gpx_file segment of
        Some (Parsed g) \<Rightarrow>
          \<lparr>distance_km = (if length_3d g \<noteq> 0 then py_round2 (length_3d g / 1000) else 0),
           elevation_gain_m = (if uphill g \<noteq> 0 then py_round (uphill g) else 0)\<rparr>
      | Some (Unparsable _) \<Rightarrow> path_stats (gpx_path segment)
      | None \<Rightarrow> path_stats (gpx_path segment))"

record trip =
  gpx_paths :: "trip_segment list"
  total_distance_km :: real
  total_elevation_gain_m :: int
  got_points :: int
  everest_diff_m :: int

text \<open>The loop over the segments in \<^verbatim>\<open>recalculate_trip_stats\<close>.\<close>

fun accumulate_segments ::
    "trip_segment list \<Rightarrow> real \<times> int \<times> point list \<Rightarrow> real \<times> int \<times> point list" where
  "accumulate_segments [] acc = acc"
| "accumulate_segments (segment # rest) (total_distance, total_elevation, all_points_in_order) =
     (let stats = get_segment_stats segment
      in accumulate_segments rest
           (total_distance + distance_km stats,
            total_elevation + elevation_gain_m stats,
            (case gpx_path segment of
               None \<Rightarrow> all_points_in_order
             | Some ls \<Rightarrow>
                 if coords ls = [] then all_points_in_order
                 else all_points_in_order @ coords ls)))"

text \<open>The loop \<^verbatim>\<open>for i in range(1, len(elevations))\<close>.\<close>

fun everest_loop :: "real list \<Rightarrow> real \<Rightarrow> real \<Rightarrow> real" where
  "everest_loop [] max_everest_diff min_elevation_so_far = max_everest_diff"
| "everest_loop (current_elevation # rest) max_everest_diff min_elevation_so_far =
     (let potential_diff = current_elevation - min_elevation_so_far
      in everest_loop rest (max max_everest_diff potential_diff)
           (min min_elevation_so_far current_elevation))"

definition everest_diff :: "point list \<Rightarrow> real" where
  "everest_diff all_points_in_order =
     (if length all_points_in_order > 1 then
        (case map (\<lambda>p. snd (snd p)) all_points_in_order of
           [] \<Rightarrow> 0
         | e0 # rest \<Rightarrow> everest_loop rest 0 e0)
      else 0)"

text \<open>
  \<^verbatim>\<open>order_by('sequence')\<close> is a stable sort on the sequence number (which is unique
  within a trip).  The function returns the trip as written back.
\<close>

definition recalculate_trip_stats :: "trip \<Rightarrow> trip" where
  "recalculate_trip_stats t =
     (case accumulate_segments (sort_key sequence (gpx_paths t)) (0, 0, []) of
        (total_distance, total_elevation, all_points_in_order) \<Rightarrow>
          t\<lparr>total_distance_km := py_round2 total_distance,
            total_elevation_gain_m := py_round (of_int total_elevation),
            got_points := \<lfloor>total_distance\<rfloor> + \<lfloor>of_int total_elevation / (100::real)\<rfloor>,
            everest_diff_m := py_round (everest_diff all_points_in_order)\<rparr>)"

text \<open>
  The value of \<^verbatim>\<open>all_points_in_order\<close> after the loop, and the list
  \<^verbatim>\<open>elevations\<close> taken from it.
\<close>

definition all_points_in_order :: "trip \<Rightarrow> point list" where
  "all_points_in_order t =
     snd (snd (accumulate_segments (sort_key sequence (gpx_paths t)) (0, 0, [])))"

definition elevations :: "trip \<Rightarrow> real list" where
  "elevations t = map (\<lambda>p. snd (snd p)) (all_points_in_order t)"

section \<open>Scoring engine (scoring\_service.py)\<close>

text \<open>
  The rows the queries of the scoring service return: visits as
  (point\_of\_interest\_id, visit\_date), requirements as (badge\_id,
  point\_of\_interest\_id), badges and points of interest as objects.  A point of interest
  carries its primary key, its name, the key of its parent and the name of its
  mesoregion, the last two possibly \<^verbatim>\<open>None\<close>.
\<close>

record poi =
  poi_id :: nat
  name :: string
  parent_id :: "nat option"
  mesoregion :: "string option"

record database =
  visit_rows :: "(nat \<times> date) list"
  badge_rows :: "badge list"
  requirement_rows :: "(nat \<times> nat) list"
  poi_rows :: "poi list"

text \<open>
  A Python dictionary keeps its keys in insertion order; assigning to a present key
  replaces the value where it stands.  \<open>dict_append\<close> is the
  \<^verbatim>\<open>defaultdict(list)\<close> idiom \<^verbatim>\<open>d[k].append(x)\<close>.
\<close>

fun dict_set :: "'k \<Rightarrow> 'v \<Rightarrow> ('k \<times> 'v) list \<Rightarrow> ('k \<times> 'v) list" where
  "dict_set k v [] = [(k, v)]"
| "dict_set k v ((k', v') # d) = (if k' = k then (k, v) # d else (k', v') # dict_set k v d)"

definition dict_append :: "'k \<Rightarrow> 'v \<Rightarrow> ('k \<times> 'v list) list \<Rightarrow> ('k \<times> 'v list) list" where
  "dict_append k x d = dict_set k ((case map_of d k of None \<Rightarrow> [] | Some xs \<Rightarrow> xs) @ [x]) d"

definition get_or :: "('k \<times> 'v) list \<Rightarrow> 'k \<Rightarrow> 'v \<Rightarrow> 'v" where
  "get_or d k dflt = (case map_of d k of None \<Rightarrow> dflt | Some v \<Rightarrow> v)"

record scoring_data =
  visits_by_poi :: "(nat \<times> date list) list"
  active_badges :: "badge list"

text \<open>The cache-miss branch of \<^verbatim>\<open>get_scoring_data_cached\<close>.\<close>

definition load_scoring_data :: "database \<Rightarrow> date \<Rightarrow> scoring_data" where
  "load_scoring_data db today =
     \<lparr>visits_by_poi =
        foldl (\<lambda>d (point_of_interest_id, visit_date). dict_append point_of_interest_id visit_date d)
          [] (visit_rows db),
      active_badges =
        filter (\<lambda>b. (case end_date b of None \<Rightarrow> True | Some e \<Rightarrow> e \<ge> today))
          (filter (\<lambda>b. (case start_date b of None \<Rightarrow> True | Some s \<Rightarrow> s \<le> today))
             (filter (\<lambda>b. \<not> is_fully_achieved b) (badge_rows db)))\<rparr>"

text \<open>
  The inner loop over the visit dates of one POI with its \<^verbatim>\<open>break\<close>: it is written
  twice in \<^verbatim>\<open>calculate_poi_scores\<close>, once counting and once setting
  \<^verbatim>\<open>is_claimed\<close>.
\<close>

fun scoring_is_claimed :: "badge \<Rightarrow> date list \<Rightarrow> bool" where
  "scoring_is_claimed badge [] = False"
| "scoring_is_claimed badge (visit_date # rest) =
     (if (case start_date badge of None \<Rightarrow> True | Some s \<Rightarrow> visit_date \<ge> s) \<and>
         (case end_date badge of None \<Rightarrow> True | Some e \<Rightarrow> visit_date \<le> e)
      then True
      else scoring_is_claimed badge rest)"

text \<open>\<^verbatim>\<open>{b.id: b for b in active_badges}\<close>: the last badge with an id wins.\<close>

definition active_badges_map :: "badge list \<Rightarrow> nat \<Rightarrow> badge option" where
  "active_badges_map actives = map_of (rev (map (\<lambda>b. (badge_id b, b)) actives))"

definition active_requirements :: "database \<Rightarrow> badge list \<Rightarrow> (nat \<times> nat) list" where
  "active_requirements db actives =
     filter (\<lambda>(b, p). b \<in> set (map badge_id actives)) (requirement_rows db)"

definition pois_by_badge :: "(nat \<times> nat) list \<Rightarrow> (nat \<times> nat list) list" where
  "pois_by_badge requirements = foldl (\<lambda>d (b, p). dict_append b p d) [] requirements"

definition badges_by_poi :: "(nat \<times> nat) list \<Rightarrow> (nat \<times> nat list) list" where
  "badges_by_poi requirements = foldl (\<lambda>d (b, p). dict_append p b d) [] requirements"

fun claimed_count :: "(nat \<times> date list) list \<Rightarrow> badge \<Rightarrow> nat list \<Rightarrow> int \<Rightarrow> int" where
  "claimed_count visits badge [] n = n"
| "claimed_count visits badge (p # rest) n =
     claimed_count visits badge rest
       (if scoring_is_claimed badge (get_or visits p []) then n + 1 else n)"

text \<open>
  The loop filling \<^verbatim>\<open>remaining_counts\<close>.  \<^verbatim>\<open>active_badges_map[badge_id]\<close> raises
  \<^verbatim>\<open>KeyError\<close> on a missing key: the result \<open>None\<close>.
\<close>

fun remaining_counts ::
    "(nat \<Rightarrow> badge option) \<Rightarrow> (nat \<times> date list) list \<Rightarrow> (nat \<times> nat list) list \<Rightarrow>
     (nat \<times> int) list \<Rightarrow> (nat \<times> int) list option" where
  "remaining_counts abm visits [] rc = Some rc"
| "remaining_counts abm visits ((b, poi_ids) # rest) rc =
     (case abm b of
        None \<Rightarrow> None
      | Some badge \<Rightarrow>
          remaining_counts abm visits rest
            (dict_set b (int (length poi_ids) - claimed_count visits badge poi_ids 0) rc))"

text \<open>One round of the loop over \<^verbatim>\<open>badge_ids\<close>: the score after looking at one badge.\<close>

definition score_step ::
    "(nat \<Rightarrow> badge option) \<Rightarrow> (nat \<times> date list) list \<Rightarrow> (nat \<times> int) list \<Rightarrow>
     nat \<Rightarrow> nat \<Rightarrow> real \<Rightarrow> real option" where
  "score_step abm visits rc p b score =
     (case abm b of
        None \<Rightarrow> None
      | Some badge \<Rightarrow>
          if \<not> scoring_is_claimed badge (get_or visits p []) then
            (let rem_count = get_or rc b 0
             in if rem_count > 0 then Some (score + 100 / real_of_int rem_count) else Some score)
          else Some score)"

fun poi_score ::
    "(nat \<Rightarrow> badge option) \<Rightarrow> (nat \<times> date list) list \<Rightarrow> (nat \<times> int) list \<Rightarrow>
     nat \<Rightarrow> nat list \<Rightarrow> real \<Rightarrow> real option" where
  "poi_score abm visits rc p [] score = Some score"
| "poi_score abm visits rc p (b # rest) score =
     (case score_step abm visits rc p b score of
        None \<Rightarrow> None
      | Some score' \<Rightarrow> poi_score abm visits rc p rest score')"

fun poi_scores ::
    "(nat \<Rightarrow> badge option) \<Rightarrow> (nat \<times> date list) list \<Rightarrow> (nat \<times> int) list \<Rightarrow>
     (nat \<times> nat list) list \<Rightarrow> (nat \<times> real) list \<Rightarrow> (nat \<times> real) list option" where
  "poi_scores abm visits rc [] ps = Some ps"
| "poi_scores abm visits rc ((p, badge_ids) # rest) ps =
     (case poi_score abm visits rc p badge_ids 0 of
        None \<Rightarrow> None
      | Some score \<Rightarrow>
          poi_scores abm visits rc rest (if score > 0 then dict_set p score ps else ps))"

text \<open>
  An entry of a ranking.  The key \<^verbatim>\<open>aggregated_from\<close> is absent until the parent
  rollup adds it; \<^verbatim>\<open>badges\<close> is always the empty list.
\<close>

record score_item =
  poi :: poi
  score :: real
  badges :: "string list"
  aggregated_from :: "string list option"

text \<open>
  \<^verbatim>\<open>sorted(..., key=..., reverse=True)\<close> is stable: entries with equal keys keep
  their order.  Sorting stably by the negated key does the same.
\<close>

definition sorted_desc :: "('a \<Rightarrow> real) \<Rightarrow> 'a list \<Rightarrow> 'a list" where
  "sorted_desc key xs = sort_key (\<lambda>x. - key x) xs"

definition calculate_poi_scores ::
    "database \<Rightarrow> badge list \<Rightarrow> (nat \<times> date list) list \<Rightarrow> score_item list option" where
  "calculate_poi_scores db actives visits =
     (let abm = active_badges_map actives;
          requirements = active_requirements db actives
      in case remaining_counts abm visits (pois_by_badge requirements) [] of
           None \<Rightarrow> None
         | Some rc \<Rightarrow>
             (case poi_scores abm visits rc (badges_by_poi requirements) [] of
                None \<Rightarrow> None
              | Some ps \<Rightarrow>
                  if ps = [] then Some []
                  else
                    let scored_pois = filter (\<lambda>q. poi_id q \<in> set (map fst ps)) (poi_rows db);
                        scored_pois_map = map_of (rev (map (\<lambda>q. (poi_id q, q)) scored_pois));
                        results_list =
                          List.map_filter
                            (\<lambda>(p, score).
                               case scored_pois_map p of
                                 None \<Rightarrow> None
                               | Some poi_obj \<Rightarrow>
                                   Some \<lparr>poi = poi_obj, score = score, badges = [],
                                         aggregated_from = None\<rparr>)
                            ps
                    in Some (sorted_desc score results_list)))"

subsection \<open>Aggregation\<close>

text \<open>
  The three statements that change \<^verbatim>\<open>parent_score_item\<close> in
  \<^verbatim>\<open>_aggregate_parent_scores_from_base\<close>: the score grows by the child's score and
  the child's name is appended to \<^verbatim>\<open>aggregated_from\<close>, created empty when missing.
\<close>

definition add_child :: "score_item \<Rightarrow> score_item \<Rightarrow> score_item" where
  "add_child parent_score_item child_score_item =
     parent_score_item
       \<lparr>score := score parent_score_item + score child_score_item,
        aggregated_from :=
          Some ((case aggregated_from parent_score_item of None \<Rightarrow> [] | Some names \<Rightarrow> names)
                @ [name (poi child_score_item)])\<rparr>"

text \<open>
  One round of the loop over \<^verbatim>\<open>children\<close>.  The two entries are read from the
  dictionary as it stands, so a child that was itself a parent hands on what it has
  collected so far.
\<close>

definition rollup_child :: "poi \<Rightarrow> (nat \<times> score_item) list \<Rightarrow> (nat \<times> score_item) list" where
  "rollup_child child scores_dict =
     (case parent_id child of
        None \<Rightarrow> scores_dict
      | Some pid \<Rightarrow>
          (case map_of scores_dict (poi_id child) of
             None \<Rightarrow> scores_dict
           | Some child_score_item \<Rightarrow>
               (case map_of scores_dict pid of
                  None \<Rightarrow> scores_dict
                | Some parent_score_item \<Rightarrow>
                    dict_set pid (add_child parent_score_item child_score_item) scores_dict)))"

text \<open>The dictionary \<^verbatim>\<open>scores_dict\<close> after the loop over the children.\<close>

definition rolled_up :: "score_item list \<Rightarrow> (nat \<times> score_item) list" where
  "rolled_up base_scores_list =
     (let scores_dict = foldl (\<lambda>d item. dict_set (poi_id (poi item)) item d) [] base_scores_list;
          children = map poi (filter (\<lambda>item. parent_id (poi item) \<noteq> None) base_scores_list)
      in foldl (\<lambda>d child. rollup_child child d) scores_dict children)"

definition aggregate_parent_scores_from_base :: "score_item list \<Rightarrow> score_item list" where
  "aggregate_parent_scores_from_base base_scores_list =
     (if base_scores_list = [] then []
      else sorted_desc score (map snd (rolled_up base_scores_list)))"

record region_item =
  mesoregion_name :: string
  total_score :: real
  poi_count :: nat
  region_top_pois :: "score_item list"

definition aggregate_mesoregion_scores_from_base :: "score_item list \<Rightarrow> region_item list" where
  "aggregate_mesoregion_scores_from_base base_scores_list =
     (let mesoregion_scores =
            foldl (\<lambda>d item.
                     case mesoregion (poi item) of
                       None \<Rightarrow> d
                     | Some region_name \<Rightarrow>
                         (case get_or d region_name (0, []) of
                            (total_so_far, pois) \<Rightarrow>
                              dict_set region_name (total_so_far + score item, pois @ [item]) d))
              [] base_scores_list;
          results_list =
            map (\<lambda>(region_name, (total_so_far, pois)).
                   \<lparr>mesoregion_name = region_name, total_score = total_so_far,
                    poi_count = length pois,
                    region_top_pois = take 5 (sorted_desc score pois)\<rparr>)
              mesoregion_scores
      in sorted_desc total_score results_list)"

subsection \<open>The cache\<close>

text \<open>
  The four cache entries of the scoring service, each under its key; \<open>None\<close> is a
  miss.  Expiry by time-out can remove an entry at any moment and is not modelled: the
  properties below hold for every cache state.  The result dictionary of
  \<^verbatim>\<open>calculate_all_dashboard_scores\<close> has the keys \<^verbatim>\<open>poi_ranking\<close> and
  \<^verbatim>\<open>region_ranking\<close>, or \<^verbatim>\<open>top_pois\<close> and \<^verbatim>\<open>top_regions\<close>.
\<close>

record dashboard_scores =
  poi_ranking :: "score_item list option"
  region_ranking :: "region_item list option"
  top_pois :: "score_item list option"
  top_regions :: "region_item list option"

record cache =
  scoring_data_v1 :: "scoring_data option"
  dashboard_scores_full_v1 :: "dashboard_scores option"
  dashboard_scores_top_v1 :: "dashboard_scores option"
  full_poi_ranking_for_details :: "score_item list option"

definition get_scoring_data_cached :: "database \<Rightarrow> date \<Rightarrow> cache \<Rightarrow> scoring_data \<times> cache" where
  "get_scoring_data_cached db today c =
     (case scoring_data_v1 c of
        None \<Rightarrow> (let data = load_scoring_data db today in (data, c\<lparr>scoring_data_v1 := Some data\<rparr>))
      | Some data \<Rightarrow> (data, c))"

text \<open>The manual invalidation of scoring\_service.py.\<close>

definition invalidate_scoring_cache :: "cache \<Rightarrow> cache" where
  "invalidate_scoring_cache c =
     c\<lparr>scoring_data_v1 := None, dashboard_scores_full_v1 := None,
       dashboard_scores_top_v1 := None\<rparr>"

text \<open>
  The parent rollup changes the entries of \<^verbatim>\<open>base_list\<close> in place (the dictionary
  holds the same objects), and the region rollup reads the list afterwards: every entry
  of the base list is seen with the score its POI has after the rollup.  The ids of the
  base list are pairwise different, as they are the keys of a dictionary.
\<close>

definition calculate_all_dashboard_scores ::
    "bool \<Rightarrow> database \<Rightarrow> date \<Rightarrow> cache \<Rightarrow> (dashboard_scores \<times> cache) option" where
  "calculate_all_dashboard_scores get_full_lists db today c =
     (case (if get_full_lists then dashboard_scores_full_v1 c else dashboard_scores_top_v1 c) of
        Some cached_results \<Rightarrow> Some (cached_results, c)
      | None \<Rightarrow>
          (case get_scoring_data_cached db today c of
             (data, c1) \<Rightarrow>
               (case calculate_poi_scores db (active_badges data) (visits_by_poi data) of
                  None \<Rightarrow> None
                | Some base_list \<Rightarrow>
                    let full_poi_ranking = aggregate_parent_scores_from_base base_list;
                        base_list_after =
                          map (\<lambda>item. get_or (rolled_up base_list) (poi_id (poi item)) item)
                            base_list;
                        full_region_ranking =
                          aggregate_mesoregion_scores_from_base base_list_after;
                        results =
                          (if get_full_lists then
                             \<lparr>poi_ranking = Some full_poi_ranking,
                              region_ranking = Some full_region_ranking,
                              top_pois = None, top_regions = None\<rparr>
                           else
                             \<lparr>poi_ranking = None, region_ranking = None,
                              top_pois = Some (take 10 full_poi_ranking),
                              top_regions = Some (take 5 full_region_ranking)\<rparr>)
                    in Some (results,
                             if get_full_lists then c1\<lparr>dashboard_scores_full_v1 := Some results\<rparr>
                             else c1\<lparr>dashboard_scores_top_v1 := Some results\<rparr>))))"

text \<open>The loop at the end of \<^verbatim>\<open>get_score_for_single_poi\<close>.\<close>

fun find_score :: "score_item list \<Rightarrow> poi \<Rightarrow> real" where
  "find_score [] q = 0"
| "find_score (item # rest) q =
     (if poi_id (poi item) = poi_id q then score item else find_score rest q)"

definition get_score_for_single_poi ::
    "database \<Rightarrow> date \<Rightarrow> cache \<Rightarrow> poi \<Rightarrow> (real \<times> cache) option" where
  "get_score_for_single_poi db today c q =
     (case full_poi_ranking_for_details c of
        Some full_ranking \<Rightarrow> Some (find_score full_ranking q, c)
      | None \<Rightarrow>
          (case calculate_all_dashboard_scores True db today c of
             None \<Rightarrow> None
           | Some (all_rankings, c1) \<Rightarrow>
               let full_ranking = (case poi_ranking all_rankings of None \<Rightarrow> [] | Some r \<Rightarrow> r)
               in Some (find_score full_ranking q,
                        c1\<lparr>full_poi_ranking_for_details := Some full_ranking\<rparr>)))"


section \<open>Cache invalidation on model changes (signals.py)\<close>

text \<open>
  The three receivers of \<^verbatim>\<open>post_save\<close> and \<^verbatim>\<open>post_delete\<close>.  Each deletes the
  same four keys; sender and instance are only logged.
\<close>

definition invalidate_scoring_cache_on_visit_change :: "cache \<Rightarrow> cache" where
  "invalidate_scoring_cache_on_visit_change c =
     c\<lparr>scoring_data_v1 := None, dashboard_scores_full_v1 := None,
       dashboard_scores_top_v1 := None, full_poi_ranking_for_details := None\<rparr>"

definition invalidate_scoring_cache_on_badge_change :: "cache \<Rightarrow> cache" where
  "invalidate_scoring_cache_on_badge_change c =
     c\<lparr>scoring_data_v1 := None, dashboard_scores_full_v1 := None,
       dashboard_scores_top_v1 := None, full_poi_ranking_for_details := None\<rparr>"

definition invalidate_scoring_cache_on_requirement_change :: "cache \<Rightarrow> cache" where
  "invalidate_scoring_cache_on_requirement_change c =
     c\<lparr>scoring_data_v1 := None, dashboard_scores_full_v1 := None,
       dashboard_scores_top_v1 := None, full_poi_ranking_for_details := None\<rparr>"

section \<open>Properties of the status calculator\<close>

lemma bound_case_iff:
  "(case x of None \<Rightarrow> True | Some s \<Rightarrow> P s) \<longleftrightarrow> (\<forall>s. x = Some s \<longrightarrow> P s)"
  by (cases x) simp_all

lemma claimed_badges_count_eq:
  "claimed_badges_count vs bds n = n + length (filter (status_is_claimed vs) bds)"
  by (induction bds arbitrary: n) simp_all

lemma all_claimed_iff:
  "claimed_badges_count vs bds 0 = length bds \<longleftrightarrow> (\<forall>b \<in> set bds. status_is_claimed vs b)"
proof -
  have "length (filter (status_is_claimed vs) bds) = length bds
          \<longleftrightarrow> (\<forall>b \<in> set bds. status_is_claimed vs b)"
    by (metis filter_id_conv length_filter_less less_irrefl)
  then show ?thesis
    by (simp add: claimed_badges_count_eq)
qed

text \<open>
  Claim C1.  Within a badge context the status is \<^verbatim>\<open>nieaktywny\<close> when the POI has no
  requirement or no requirement badge is active (not fully achieved and today inside
  the window, a missing bound always satisfied); otherwise \<^verbatim>\<open>zdobyty\<close> when every
  active requirement badge has a visit date inside its window; otherwise
  \<^verbatim>\<open>do_ponowienia\<close> when the POI has any visit at all; otherwise \<^verbatim>\<open>niezdobyty\<close>.
\<close>

theorem determine_status_cases:
  "determine_status today visit_dates badges_data =
     (if badges_data = [] \<or>
         \<not> (\<exists>b \<in> set badges_data.
               \<not> is_fully_achieved b \<and>
               (\<forall>s. start_date b = Some s \<longrightarrow> s \<le> today) \<and>
               (\<forall>e. end_date b = Some e \<longrightarrow> today \<le> e))
      then ''nieaktywny''
      else if (\<forall>b \<in> set badges_data.
                 \<not> is_fully_achieved b \<and>
                 (\<forall>s. start_date b = Some s \<longrightarrow> s \<le> today) \<and>
                 (\<forall>e. end_date b = Some e \<longrightarrow> today \<le> e) \<longrightarrow>
                 (\<exists>d \<in> set visit_dates.
                    (\<forall>s. start_date b = Some s \<longrightarrow> s \<le> d) \<and>
                    (\<forall>e. end_date b = Some e \<longrightarrow> d \<le> e)))
      then ''zdobyty''
      else if visit_dates \<noteq> [] then ''do_ponowienia''
      else ''niezdobyty'')"
proof -
  have act: "active_on today b \<longleftrightarrow>
               \<not> is_fully_achieved b \<and>
               (\<forall>s. start_date b = Some s \<longrightarrow> s \<le> today) \<and>
               (\<forall>e. end_date b = Some e \<longrightarrow> today \<le> e)" for b
    by (simp add: active_on_def bound_case_iff)
  have clm: "status_is_claimed visit_dates b \<longleftrightarrow>
               (\<exists>d \<in> set visit_dates.
                  (\<forall>s. start_date b = Some s \<longrightarrow> s \<le> d) \<and>
                  (\<forall>e. end_date b = Some e \<longrightarrow> d \<le> e))" for b
    by (simp add: status_is_claimed_def list_ex_iff bound_case_iff)
  have empty: "filter (active_on today) badges_data = [] \<longleftrightarrow>
                 \<not> (\<exists>b \<in> set badges_data. active_on today b)"
    by (simp add: filter_empty_conv)
  have allc: "claimed_badges_count visit_dates (filter (active_on today) badges_data) 0
                = length (filter (active_on today) badges_data) \<longleftrightarrow>
              (\<forall>b \<in> set badges_data. active_on today b \<longrightarrow> status_is_claimed visit_dates b)"
    by (auto simp add: all_claimed_iff)
  show ?thesis
    unfolding determine_status_def Let_def empty allc
    unfolding act clm
    by simp
qed

theorem determine_status_cases_witness:
  "determine_status 738700 []
     [\<lparr>is_fully_achieved = False, start_date = Some 738521, end_date = Some 738885\<rparr>]
     = ''niezdobyty'' \<and>
   determine_status 738700 [738672]
     [\<lparr>is_fully_achieved = False, start_date = Some 738521, end_date = Some 738885\<rparr>]
     = ''zdobyty'' \<and>
   determine_status 738700 [738886]
     [\<lparr>is_fully_achieved = False, start_date = Some 738521, end_date = Some 738885\<rparr>]
     = ''do_ponowienia'' \<and>
   determine_status 738900 [738672]
     [\<lparr>is_fully_achieved = False, start_date = Some 738521, end_date = Some 738885\<rparr>]
     = ''nieaktywny''"
  using
    determine_status_cases [of 738700 "[]"
      "[\<lparr>is_fully_achieved = False, start_date = Some 738521, end_date = Some 738885\<rparr>]"]
    determine_status_cases [of 738700 "[738672]"
      "[\<lparr>is_fully_achieved = False, start_date = Some 738521, end_date = Some 738885\<rparr>]"]
    determine_status_cases [of 738700 "[738886]"
      "[\<lparr>is_fully_achieved = False, start_date = Some 738521, end_date = Some 738885\<rparr>]"]
    determine_status_cases [of 738900 "[738672]"
      "[\<lparr>is_fully_achieved = False, start_date = Some 738521, end_date = Some 738885\<rparr>]"]
  by simp

section \<open>Properties of the GPX parser\<close>





section \<open>Properties of the trip statistics\<close>





lemma everest_loop_ge: "mx \<le> everest_loop rest mx mn"
proof (induction rest arbitrary: mx mn)
  case Nil
  show ?case by simp
next
  case (Cons c rest)
  have "mx \<le> max mx (c - mn)" by simp
  also have "\<dots> \<le> everest_loop rest (max mx (c - mn)) (min mn c)" by (rule Cons.IH)
  finally show ?case by simp
qed

lemma everest_loop_decreasing:
  "sorted_wrt (\<lambda>a b. b \<le> a) (mn # rest) \<Longrightarrow> everest_loop rest 0 mn = 0"
proof (induction rest arbitrary: mn)
  case Nil
  show ?case by simp
next
  case (Cons c rest)
  then have "c \<le> mn" and "sorted_wrt (\<lambda>a b. b \<le> a) (c # rest)" by auto
  then show ?case using Cons.IH [of c] by (simp add: min_def max_def)
qed

lemma everest_diff_nonneg: "0 \<le> everest_diff pts"
  by (auto simp: everest_diff_def everest_loop_ge split: list.splits)

lemma everest_diff_short: "length pts < 2 \<Longrightarrow> everest_diff pts = 0"
  by (simp add: everest_diff_def)

lemma everest_diff_decreasing:
  "sorted_wrt (\<lambda>a b. b \<le> a) (map (\<lambda>p. snd (snd p)) pts) \<Longrightarrow> everest_diff pts = 0"
  by (cases "map (\<lambda>p. snd (snd p)) pts")
     (simp_all add: everest_diff_def everest_loop_decreasing del: sorted_wrt.simps)

lemma py_round_nonneg: "0 \<le> x \<Longrightarrow> 0 \<le> py_round x"
  by (simp add: py_round_def Let_def)




lemma recalculate_everest:
  "everest_diff_m (recalculate_trip_stats t) = py_round (everest_diff (all_points_in_order t))"
  by (simp add: recalculate_trip_stats_def all_points_in_order_def split: prod.splits)




text \<open>
  Claim C9.  The stored \<^verbatim>\<open>everest_diff_m\<close> is never negative; it is 0 when the
  concatenated point list has fewer than two points, and 0 when the concatenated
  profile never rises (each elevation at most every earlier one).
\<close>

theorem everest_diff_m_nonneg:
  "0 \<le> everest_diff_m (recalculate_trip_stats t) \<and>
   (length (all_points_in_order t) < 2 \<longrightarrow> everest_diff_m (recalculate_trip_stats t) = 0) \<and>
   (sorted_wrt (\<lambda>a b. b \<le> a) (elevations t) \<longrightarrow>
      everest_diff_m (recalculate_trip_stats t) = 0)"
proof (intro conjI impI)
  show "0 \<le> everest_diff_m (recalculate_trip_stats t)"
    unfolding recalculate_everest by (rule py_round_nonneg) (rule everest_diff_nonneg)
next
  assume "length (all_points_in_order t) < 2"
  then show "everest_diff_m (recalculate_trip_stats t) = 0"
    by (simp add: recalculate_everest everest_diff_short py_round_def)
next
  assume "sorted_wrt (\<lambda>a b. b \<le> a) (elevations t)"
  then have "everest_diff (all_points_in_order t) = 0"
    unfolding elevations_def by (rule everest_diff_decreasing)
  then show "everest_diff_m (recalculate_trip_stats t) = 0"
    by (simp add: recalculate_everest py_round_def)
qed

theorem everest_diff_m_nonneg_witness:
  "length (all_points_in_order
     \<lparr>gpx_paths = [\<lparr>sequence = 1, gpx_file = None, gpx_path = None\<rparr>],
      total_distance_km = 0, total_elevation_gain_m = 0, got_points = 0, everest_diff_m = 7\<rparr>) < 2 \<and>
   everest_diff_m (recalculate_trip_stats
     \<lparr>gpx_paths = [\<lparr>sequence = 1, gpx_file = None, gpx_path = None\<rparr>],
      total_distance_km = 0, total_elevation_gain_m = 0, got_points = 0, everest_diff_m = 7\<rparr>) = 0 \<and>
   sorted_wrt (\<lambda>a b. b \<le> a) (elevations
     \<lparr>gpx_paths =
        [\<lparr>sequence = 1, gpx_file = None,
          gpx_path = Some \<lparr>coords = [(0, 0, 300), (0, 0, 200), (0, 0, 100)], length_3857 = None\<rparr>\<rparr>],
      total_distance_km = 0, total_elevation_gain_m = 0, got_points = 0, everest_diff_m = 7\<rparr>) \<and>
   everest_diff_m (recalculate_trip_stats
     \<lparr>gpx_paths =
        [\<lparr>sequence = 1, gpx_file = None,
          gpx_path = Some \<lparr>coords = [(0, 0, 300), (0, 0, 200), (0, 0, 100)], length_3857 = None\<rparr>\<rparr>],
      total_distance_km = 0, total_elevation_gain_m = 0, got_points = 0, everest_diff_m = 7\<rparr>) = 0"
proof -
  let ?s = "\<lparr>gpx_paths = [\<lparr>sequence = 1, gpx_file = None, gpx_path = None\<rparr>],
      total_distance_km = 0, total_elevation_gain_m = 0, got_points = 0, everest_diff_m = 7\<rparr>"
  let ?d = "\<lparr>gpx_paths =
        [\<lparr>sequence = 1, gpx_file = None,
          gpx_path = Some \<lparr>coords = [(0, 0, 300), (0, 0, 200), (0, 0, 100)], length_3857 = None\<rparr>\<rparr>],
      total_distance_km = 0, total_elevation_gain_m = 0, got_points = 0, everest_diff_m = 7\<rparr>"
  have short: "length (all_points_in_order ?s) < 2"
    by (simp add: all_points_in_order_def Let_def)
  have decr: "sorted_wrt (\<lambda>a b. b \<le> a) (elevations ?d)"
    by (simp add: elevations_def all_points_in_order_def Let_def)
  from everest_diff_m_nonneg [of ?s] everest_diff_m_nonneg [of ?d] short decr
  show ?thesis by blast
qed



section \<open>The window predicate at its two call sites\<close>

lemma scoring_is_claimed_iff:
  "scoring_is_claimed b visit_dates \<longleftrightarrow>
     (\<exists>d \<in> set visit_dates.
        (\<forall>s. start_date b = Some s \<longrightarrow> s \<le> d) \<and> (\<forall>e. end_date b = Some e \<longrightarrow> d \<le> e))"
  by (induction visit_dates) (auto simp: bound_case_iff)

lemma status_is_claimed_iff:
  "status_is_claimed visit_dates bd \<longleftrightarrow>
     (\<exists>d \<in> set visit_dates.
        (\<forall>s. start_date bd = Some s \<longrightarrow> s \<le> d) \<and> (\<forall>e. end_date bd = Some e \<longrightarrow> d \<le> e))"
  by (simp add: status_is_claimed_def list_ex_iff bound_case_iff)

text \<open>
  Claim C5.  The status calculator and the scoring engine decide "a visit claims the
  badge window" by the same function: a visit date \<open>d\<close> claims badge \<open>b\<close> exactly when
  \<open>b\<close> has no start date or \<open>d\<close> is on or after it, and \<open>b\<close> has no end date or \<open>d\<close> is
  on or before it.  A visit on the start date or on the end date itself counts at both
  places, and a missing bound is always satisfied.
\<close>

theorem visit_claims_window_agree:
  "status_is_claimed visit_dates
     \<lparr>is_fully_achieved = is_fully_achieved b, start_date = start_date b, end_date = end_date b\<rparr>
     = scoring_is_claimed b visit_dates \<and>
   (scoring_is_claimed b [d] \<longleftrightarrow>
      (start_date b = None \<or> (\<exists>s. start_date b = Some s \<and> d \<ge> s)) \<and>
      (end_date b = None \<or> (\<exists>e. end_date b = Some e \<and> d \<le> e))) \<and>
   (status_is_claimed [d]
      \<lparr>is_fully_achieved = is_fully_achieved b, start_date = start_date b, end_date = end_date b\<rparr> \<longleftrightarrow>
      (start_date b = None \<or> (\<exists>s. start_date b = Some s \<and> d \<ge> s)) \<and>
      (end_date b = None \<or> (\<exists>e. end_date b = Some e \<and> d \<le> e)))"
proof (intro conjI)
  show "status_is_claimed visit_dates
     \<lparr>is_fully_achieved = is_fully_achieved b, start_date = start_date b, end_date = end_date b\<rparr>
     = scoring_is_claimed b visit_dates"
    by (simp add: status_is_claimed_iff scoring_is_claimed_iff)
  show "scoring_is_claimed b [d] \<longleftrightarrow>
      (start_date b = None \<or> (\<exists>s. start_date b = Some s \<and> d \<ge> s)) \<and>
      (end_date b = None \<or> (\<exists>e. end_date b = Some e \<and> d \<le> e))"
    by (cases "start_date b"; cases "end_date b") simp_all
  show "status_is_claimed [d]
      \<lparr>is_fully_achieved = is_fully_achieved b, start_date = start_date b, end_date = end_date b\<rparr> \<longleftrightarrow>
      (start_date b = None \<or> (\<exists>s. start_date b = Some s \<and> d \<ge> s)) \<and>
      (end_date b = None \<or> (\<exists>e. end_date b = Some e \<and> d \<le> e))"
    by (cases "start_date b"; cases "end_date b") (simp_all add: status_is_claimed_def)
qed

theorem visit_claims_window_agree_witness:
  "scoring_is_claimed
     \<lparr>is_fully_achieved = False, start_date = Some 738521, end_date = Some 738885, badge_id = 1\<rparr>
     [738521] \<and>
   status_is_claimed [738521]
     \<lparr>is_fully_achieved = False, start_date = Some 738521, end_date = Some 738885\<rparr> \<and>
   scoring_is_claimed
     \<lparr>is_fully_achieved = False, start_date = Some 738521, end_date = Some 738885, badge_id = 1\<rparr>
     [738885] \<and>
   status_is_claimed [738885]
     \<lparr>is_fully_achieved = False, start_date = Some 738521, end_date = Some 738885\<rparr> \<and>
   \<not> scoring_is_claimed
     \<lparr>is_fully_achieved = False, start_date = Some 738521, end_date = Some 738885, badge_id = 1\<rparr>
     [738886] \<and>
   \<not> status_is_claimed [738886]
     \<lparr>is_fully_achieved = False, start_date = Some 738521, end_date = Some 738885\<rparr> \<and>
   scoring_is_claimed
     \<lparr>is_fully_achieved = False, start_date = None, end_date = None, badge_id = 1\<rparr> [0] \<and>
   status_is_claimed [0] \<lparr>is_fully_achieved = False, start_date = None, end_date = None\<rparr>"
  using
    visit_claims_window_agree [of "[738521]"
      "\<lparr>is_fully_achieved = False, start_date = Some 738521, end_date = Some 738885, badge_id = 1\<rparr>"
      738521]
    visit_claims_window_agree [of "[738885]"
      "\<lparr>is_fully_achieved = False, start_date = Some 738521, end_date = Some 738885, badge_id = 1\<rparr>"
      738885]
    visit_claims_window_agree [of "[738886]"
      "\<lparr>is_fully_achieved = False, start_date = Some 738521, end_date = Some 738885, badge_id = 1\<rparr>"
      738886]
    visit_claims_window_agree [of "[0]"
      "\<lparr>is_fully_achieved = False, start_date = None, end_date = None, badge_id = 1\<rparr>" 0]
  by simp

section \<open>Cache invalidation\<close>

text \<open>
  Claim C6.  The three signal receivers delete all four cache entries, but the manual
  operation \<^verbatim>\<open>invalidate_scoring_cache\<close> leaves the entry
  \<^verbatim>\<open>full_poi_ranking_for_details\<close> in place.  With one open badge requiring POI 7, a
  ranking cached before the visit to POI 7 gives it 100 points; after the visit has been
  recorded and the manual operation has run, the single-POI lookup still answers 100,
  while after the receiver it answers 0.
\<close>

theorem invalidate_scoring_cache_keeps_ranking:
  "full_poi_ranking_for_details (invalidate_scoring_cache c) = full_poi_ranking_for_details c \<and>
   full_poi_ranking_for_details (invalidate_scoring_cache_on_visit_change c) = None \<and>
   full_poi_ranking_for_details (invalidate_scoring_cache_on_badge_change c) = None \<and>
   full_poi_ranking_for_details (invalidate_scoring_cache_on_requirement_change c) = None \<and>
   map_option fst
     (get_score_for_single_poi
        \<lparr>visit_rows = [(7, 738672)],
         badge_rows = [\<lparr>is_fully_achieved = False, start_date = None, end_date = None, badge_id = 1\<rparr>],
         requirement_rows = [(1, 7)],
         poi_rows = [\<lparr>poi_id = 7, name = ''Rysy'', parent_id = None, mesoregion = None\<rparr>]\<rparr>
        738700
        (invalidate_scoring_cache
           \<lparr>scoring_data_v1 = None, dashboard_scores_full_v1 = None, dashboard_scores_top_v1 = None,
            full_poi_ranking_for_details =
              Some [\<lparr>poi = \<lparr>poi_id = 7, name = ''Rysy'', parent_id = None, mesoregion = None\<rparr>,
                     score = 100, badges = [], aggregated_from = None\<rparr>]\<rparr>)
        \<lparr>poi_id = 7, name = ''Rysy'', parent_id = None, mesoregion = None\<rparr>) = Some 100 \<and>
   map_option fst
     (get_score_for_single_poi
        \<lparr>visit_rows = [(7, 738672)],
         badge_rows = [\<lparr>is_fully_achieved = False, start_date = None, end_date = None, badge_id = 1\<rparr>],
         requirement_rows = [(1, 7)],
         poi_rows = [\<lparr>poi_id = 7, name = ''Rysy'', parent_id = None, mesoregion = None\<rparr>]\<rparr>
        738700
        (invalidate_scoring_cache_on_visit_change
           \<lparr>scoring_data_v1 = None, dashboard_scores_full_v1 = None, dashboard_scores_top_v1 = None,
            full_poi_ranking_for_details =
              Some [\<lparr>poi = \<lparr>poi_id = 7, name = ''Rysy'', parent_id = None, mesoregion = None\<rparr>,
                     score = 100, badges = [], aggregated_from = None\<rparr>]\<rparr>)
        \<lparr>poi_id = 7, name = ''Rysy'', parent_id = None, mesoregion = None\<rparr>) = Some 0"
proof (intro conjI)
  show "full_poi_ranking_for_details (invalidate_scoring_cache c) = full_poi_ranking_for_details c"
    by (simp add: invalidate_scoring_cache_def)
  show "full_poi_ranking_for_details (invalidate_scoring_cache_on_visit_change c) = None"
    by (simp add: invalidate_scoring_cache_on_visit_change_def)
  show "full_poi_ranking_for_details (invalidate_scoring_cache_on_badge_change c) = None"
    by (simp add: invalidate_scoring_cache_on_badge_change_def)
  show "full_poi_ranking_for_details (invalidate_scoring_cache_on_requirement_change c) = None"
    by (simp add: invalidate_scoring_cache_on_requirement_change_def)
  show "map_option fst
     (get_score_for_single_poi
        \<lparr>visit_rows = [(7, 738672)],
         badge_rows = [\<lparr>is_fully_achieved = False, start_date = None, end_date = None, badge_id = 1\<rparr>],
         requirement_rows = [(1, 7)],
         poi_rows = [\<lparr>poi_id = 7, name = ''Rysy'', parent_id = None, mesoregion = None\<rparr>]\<rparr>
        738700
        (invalidate_scoring_cache
           \<lparr>scoring_data_v1 = None, dashboard_scores_full_v1 = None, dashboard_scores_top_v1 = None,
            full_poi_ranking_for_details =
              Some [\<lparr>poi = \<lparr>poi_id = 7, name = ''Rysy'', parent_id = None, mesoregion = None\<rparr>,
                     score = 100, badges = [], aggregated_from = None\<rparr>]\<rparr>)
        \<lparr>poi_id = 7, name = ''Rysy'', parent_id = None, mesoregion = None\<rparr>) = Some 100"
    by (simp add: get_score_for_single_poi_def invalidate_scoring_cache_def)
  show "map_option fst
     (get_score_for_single_poi
        \<lparr>visit_rows = [(7, 738672)],
         badge_rows = [\<lparr>is_fully_achieved = False, start_date = None, end_date = None, badge_id = 1\<rparr>],
         requirement_rows = [(1, 7)],
         poi_rows = [\<lparr>poi_id = 7, name = ''Rysy'', parent_id = None, mesoregion = None\<rparr>]\<rparr>
        738700
        (invalidate_scoring_cache_on_visit_change
           \<lparr>scoring_data_v1 = None, dashboard_scores_full_v1 = None, dashboard_scores_top_v1 = None,
            full_poi_ranking_for_details =
              Some [\<lparr>poi = \<lparr>poi_id = 7, name = ''Rysy'', parent_id = None, mesoregion = None\<rparr>,
                     score = 100, badges = [], aggregated_from = None\<rparr>]\<rparr>)
        \<lparr>poi_id = 7, name = ''Rysy'', parent_id = None, mesoregion = None\<rparr>) = Some 0"
    by (simp add: get_score_for_single_poi_def invalidate_scoring_cache_on_visit_change_def
          calculate_all_dashboard_scores_def get_scoring_data_cached_def load_scoring_data_def
          calculate_poi_scores_def active_badges_map_def active_requirements_def
          pois_by_badge_def badges_by_poi_def dict_append_def get_or_def score_step_def
          aggregate_parent_scores_from_base_def Let_def)
qed

section \<open>Dictionaries\<close>

lemma map_of_dict_set: "map_of (dict_set k v d) = (map_of d)(k \<mapsto> v)"
  by (induction d) (auto simp: fun_eq_iff)



lemma get_or_dict_set: "get_or (dict_set k v d) k' dflt = (if k' = k then v else get_or d k' dflt)"
  by (simp add: get_or_def map_of_dict_set)













section \<open>Properties of the scoring engine\<close>















subsection \<open>The parent rollup keeps the entries of the base list\<close>














section \<open>The single-POI score lookup\<close>








section \<open>The share of a badge\<close>






section \<open>Properties of the parent rollup\<close>















end
